theory Spec2Isabelle
  imports Complex_Main "HOL-Library.Sublist"
begin

section \<open>Python values\<close>

text \<open>
  A decoded JSON document as Python holds it. Python's \<open>None\<close> and JSON's \<open>null\<close> are the
  same value, \<open>JNull\<close>. A number written with a fraction or an exponent is a Python float;
  \<open>JFloat\<close> keeps the literal that the scanner hands to \<open>float()\<close>. A Python \<open>dict\<close> keeps
  its keys in insertion order, so it is an association list with distinct keys.
  Text is a list of 8-bit characters: the bytes of \<open>response.content\<close> and the characters
  of \<open>response.text\<close> are the same sequence (an ASCII-compatible single-byte charset).
\<close>

datatype json =
    JNull
  | JBool bool
  | JInt int
  | JFloat string
  | JStr string
  | JList "json list"
  | JDict "(string \<times> json) list"

fun dict_set :: "'k \<Rightarrow> 'v \<Rightarrow> ('k \<times> 'v) list \<Rightarrow> ('k \<times> 'v) list" where
  "dict_set k v [] = [(k, v)]"
| "dict_set k v ((k', v') # d) = (if k' = k then (k', v) # d else (k', v') # dict_set k v d)"

definition dict_pop :: "'k \<Rightarrow> ('k \<times> 'v) list \<Rightarrow> ('k \<times> 'v) list" where
  "dict_pop k d = filter (\<lambda>kv. fst kv \<noteq> k) d"

definition py_dict :: "('k \<times> 'v) list \<Rightarrow> ('k \<times> 'v) list" where
  "py_dict pairs = foldl (\<lambda>d kv. dict_set (fst kv) (snd kv) d) [] pairs"

section \<open>The standard library's JSON scanner\<close>

text \<open>
  \<open>json.JSONDecoder.raw_decode\<close> and \<open>json.loads\<close> belong to Python's standard library, not
  to the repository; \<open>json_decoder\<close> and \<open>_make_request\<close> call them. This section models the
  scanner of \<open>json/scanner.py\<close> and \<open>json/decoder.py\<close>: \<open>scan_once\<close>, \<open>JSONObject\<close>,
  \<open>JSONArray\<close>, \<open>py_scanstring\<close> and the number pattern. The functions read the text that
  starts at the current index and return the text that is left, so an end index is the
  length of the whole text minus the length of what is left. A \<open>JSONDecodeError\<close> is
  represented by its message (the two escape messages are written without their backslash); the position that \<open>str(error)\<close> appends to it
  (\<open>: line l column c (char p)\<close>) is not modelled.
\<close>

definition DQUOTE :: char where "DQUOTE = CHR 0x22"
definition BSLASH :: char where "BSLASH = CHR 0x5C"

definition is_ws :: "char \<Rightarrow> bool" where
  "is_ws c = (c = CHR '' '' \<or> c = CHR 0x09 \<or> c = CHR 0x0A \<or> c = CHR 0x0D)"

definition skip_ws :: "string \<Rightarrow> string" where
  "skip_ws s = dropWhile is_ws s"

definition is_digit :: "char \<Rightarrow> bool" where
  "is_digit c = (c \<in> set ''0123456789'')"

definition digit_val :: "char \<Rightarrow> nat" where
  "digit_val c = of_char c - 48"

definition nat_of_digits :: "string \<Rightarrow> nat" where
  "nat_of_digits ds = foldl (\<lambda>n c. 10 * n + digit_val c) 0 ds"

definition hex_val :: "char \<Rightarrow> nat option" where
  "hex_val c =
     (if is_digit c then Some (digit_val c)
      else if c \<in> set ''abcdef'' then Some (of_char c - 87)
      else if c \<in> set ''ABCDEF'' then Some (of_char c - 55)
      else None)"

text \<open>\<open>_decode_uXXXX\<close>: the four hexadecimal digits after \<open>\u\<close>.\<close>

definition decode_uXXXX :: "string \<Rightarrow> nat option" where
  "decode_uXXXX s =
     (case map hex_val (take 4 s) of
        [Some a, Some b, Some c, Some d] \<Rightarrow> Some (((a * 16 + b) * 16 + c) * 16 + d)
      | _ \<Rightarrow> None)"

text \<open>
  \<open>chr(uni)\<close>. A code point outside the 8-bit alphabet of this model is represented by
  a question mark.
\<close>

definition py_chr :: "nat \<Rightarrow> char" where
  "py_chr uni = (if uni < 256 then char_of uni else CHR ''?'')"

definition BACKSLASH :: "char \<Rightarrow> char option" where
  "BACKSLASH esc =
     (if esc = DQUOTE then Some DQUOTE
      else if esc = BSLASH then Some BSLASH
      else if esc = CHR ''/'' then Some (CHR ''/'')
      else if esc = CHR ''b'' then Some (CHR 0x08)
      else if esc = CHR ''f'' then Some (CHR 0x0C)
      else if esc = CHR ''n'' then Some (CHR 0x0A)
      else if esc = CHR ''r'' then Some (CHR 0x0D)
      else if esc = CHR ''t'' then Some (CHR 0x09)
      else None)"

text \<open>
  \<open>py_scanstring\<close>, entered after the opening quote: the decoded string and the text after
  the closing quote, or the message of the error.
\<close>

fun py_scanstring :: "string \<Rightarrow> string \<Rightarrow> string + (string \<times> string)" where
  "py_scanstring chunks [] = Inl ''Unterminated string starting at''"
| "py_scanstring chunks (c # s) =
     (if c = DQUOTE then Inr (chunks, s)
      else if c = BSLASH then
        (case s of
           [] \<Rightarrow> Inl ''Unterminated string starting at''
         | esc # s1 \<Rightarrow>
             if esc \<noteq> CHR ''u'' then
               (case BACKSLASH esc of
                  None \<Rightarrow> Inl ''Invalid escape''
                | Some ch \<Rightarrow> py_scanstring (chunks @ [ch]) s1)
             else
               (case decode_uXXXX s1 of
                  None \<Rightarrow> Inl ''Invalid uXXXX escape''
                | Some uni \<Rightarrow>
                    if 0xd800 \<le> uni \<and> uni \<le> 0xdbff \<and> prefix [BSLASH, CHR ''u''] (drop 4 s1) then
                      (case decode_uXXXX (drop 6 s1) of
                         None \<Rightarrow> Inl ''Invalid uXXXX escape''
                       | Some uni2 \<Rightarrow>
                           if 0xdc00 \<le> uni2 \<and> uni2 \<le> 0xdfff
                           then py_scanstring
                                  (chunks @ [py_chr (0x10000 + ((uni - 0xd800) * 1024 + (uni2 - 0xdc00)))])
                                  (drop 10 s1)
                           else py_scanstring (chunks @ [py_chr uni]) (drop 4 s1))
                    else py_scanstring (chunks @ [py_chr uni]) (drop 4 s1)))
      else if (of_char c :: nat) < 0x20 then Inl ''Invalid control character at''
      else py_scanstring (chunks @ [c]) s)"

text \<open>
  \<open>NUMBER_RE\<close>, \<open>(-?(?:0|[1-9]\d*))(\.\d+)?([eE][-+]?\d+)?\<close>, matched at the start of the
  text: the three groups and the text after the match.
\<close>

definition match_exponent :: "string \<Rightarrow> string \<times> string" where
  "match_exponent s =
     (case s of
        [] \<Rightarrow> ([], s)
      | e # r \<Rightarrow>
          if e = CHR ''e'' \<or> e = CHR ''E'' then
            (let sg = (case r of [] \<Rightarrow> [] | g # _ \<Rightarrow> if g = CHR ''-'' \<or> g = CHR ''+'' then [g] else []);
                 r1 = drop (length sg) r
             in if takeWhile is_digit r1 = [] then ([], s)
                else (e # sg @ takeWhile is_digit r1, dropWhile is_digit r1))
          else ([], s))"

definition match_fraction :: "string \<Rightarrow> string \<times> string" where
  "match_fraction s =
     (case s of
        [] \<Rightarrow> ([], s)
      | p # r \<Rightarrow>
          if p = CHR ''.'' \<and> takeWhile is_digit r \<noteq> []
          then (p # takeWhile is_digit r, dropWhile is_digit r)
          else ([], s))"

definition match_number :: "string \<Rightarrow> ((string \<times> string \<times> string) \<times> string) option" where
  "match_number s =
     (let sg = (case s of [] \<Rightarrow> [] | g # _ \<Rightarrow> if g = CHR ''-'' then [g] else []);
          s1 = drop (length sg) s
      in case s1 of
           [] \<Rightarrow> None
         | d # s2 \<Rightarrow>
             if \<not> is_digit d then None
             else
               (let ipart = (if d = CHR ''0'' then [d] else d # takeWhile is_digit s2);
                    s3 = (if d = CHR ''0'' then s2 else dropWhile is_digit s2);
                    fr = match_fraction s3;
                    ex = match_exponent (snd fr)
                in Some ((sg @ ipart, fst fr, fst ex), snd ex)))"

text \<open>\<open>int(integer)\<close> on the first group of the number pattern.\<close>

definition py_int :: "string \<Rightarrow> int" where
  "py_int s =
     (case s of
        [] \<Rightarrow> 0
      | g # r \<Rightarrow> if g = CHR ''-'' then - int (nat_of_digits r) else int (nat_of_digits s))"

datatype scan_result =
    Scanned json string
  | StopIteration
  | DecodeError string
  | OutOfFuel

datatype scan_task =
    Value
  | Members "(string \<times> json) list"
  | Elements "json list"

text \<open>
  \<open>scan Value\<close> is \<open>_scan_once\<close>; \<open>scan (Members pairs)\<close> is the \<open>while\<close> loop of
  \<open>JSONObject\<close>, entered after the opening quote of a key; \<open>scan (Elements values)\<close> is the
  \<open>while\<close> loop of \<open>JSONArray\<close>. The first argument bounds the depth of the calls; with
  twice the length of the text plus one it is never used up (\<open>scan_once_fuel\<close> below).
\<close>

fun scan :: "nat \<Rightarrow> scan_task \<Rightarrow> string \<Rightarrow> scan_result" where
  "scan 0 task s = OutOfFuel"
| "scan (Suc n) Value s =
     (case s of
        [] \<Rightarrow> StopIteration
      | nextchar # s1 \<Rightarrow>
          if nextchar = DQUOTE then
            (case py_scanstring [] s1 of
               Inl msg \<Rightarrow> DecodeError msg
             | Inr (str, rest) \<Rightarrow> Scanned (JStr str) rest)
          else if nextchar = CHR ''{'' then
            (case skip_ws s1 of
               [] \<Rightarrow> DecodeError ''Expecting property name enclosed in double quotes''
             | c # rest \<Rightarrow>
                 if c = CHR ''}'' then Scanned (JDict []) rest
                 else if c = DQUOTE then scan n (Members []) rest
                 else DecodeError ''Expecting property name enclosed in double quotes'')
          else if nextchar = CHR ''['' then
            (case skip_ws s1 of
               [] \<Rightarrow> scan n (Elements []) []
             | c # rest \<Rightarrow>
                 if c = CHR '']'' then Scanned (JList []) rest
                 else scan n (Elements []) (c # rest))
          else if nextchar = CHR ''n'' \<and> take 4 s = ''null'' then Scanned JNull (drop 4 s)
          else if nextchar = CHR ''t'' \<and> take 4 s = ''true'' then Scanned (JBool True) (drop 4 s)
          else if nextchar = CHR ''f'' \<and> take 5 s = ''false'' then Scanned (JBool False) (drop 5 s)
          else
            (case match_number s of
               Some ((integer, fraction, expo), rest) \<Rightarrow>
                 if fraction \<noteq> [] \<or> expo \<noteq> [] then Scanned (JFloat (integer @ fraction @ expo)) rest
                 else Scanned (JInt (py_int integer)) rest
             | None \<Rightarrow>
                 if nextchar = CHR ''N'' \<and> take 3 s = ''NaN'' then Scanned (JFloat ''NaN'') (drop 3 s)
                 else if nextchar = CHR ''I'' \<and> take 8 s = ''Infinity''
                   then Scanned (JFloat ''Infinity'') (drop 8 s)
                 else if nextchar = CHR ''-'' \<and> take 9 s = ''-Infinity''
                   then Scanned (JFloat ''-Infinity'') (drop 9 s)
                 else StopIteration))"
| "scan (Suc n) (Members pairs) s =
     (case py_scanstring [] s of
        Inl msg \<Rightarrow> DecodeError msg
      | Inr (key, s1) \<Rightarrow>
          (case skip_ws s1 of
             [] \<Rightarrow> DecodeError ''Expecting ':' delimiter''
           | c # s2 \<Rightarrow>
               if c \<noteq> CHR '':'' then DecodeError ''Expecting ':' delimiter''
               else
                 (case scan n Value (skip_ws s2) of
                    StopIteration \<Rightarrow> DecodeError ''Expecting value''
                  | DecodeError msg \<Rightarrow> DecodeError msg
                  | OutOfFuel \<Rightarrow> OutOfFuel
                  | Scanned v s3 \<Rightarrow>
                      (case skip_ws s3 of
                         [] \<Rightarrow> DecodeError ''Expecting ',' delimiter''
                       | d # s4 \<Rightarrow>
                           if d = CHR ''}'' then Scanned (JDict (py_dict (pairs @ [(key, v)]))) s4
                           else if d \<noteq> CHR '','' then DecodeError ''Expecting ',' delimiter''
                           else
                             (case skip_ws s4 of
                                [] \<Rightarrow> DecodeError ''Expecting property name enclosed in double quotes''
                              | q # s5 \<Rightarrow>
                                  if q \<noteq> DQUOTE
                                  then DecodeError ''Expecting property name enclosed in double quotes''
                                  else scan n (Members (pairs @ [(key, v)])) s5)))))"
| "scan (Suc n) (Elements values) s =
     (case scan n Value s of
        StopIteration \<Rightarrow> DecodeError ''Expecting value''
      | DecodeError msg \<Rightarrow> DecodeError msg
      | OutOfFuel \<Rightarrow> OutOfFuel
      | Scanned v s1 \<Rightarrow>
          (case skip_ws s1 of
             [] \<Rightarrow> DecodeError ''Expecting ',' delimiter''
           | d # s2 \<Rightarrow>
               if d = CHR '']'' then Scanned (JList (values @ [v])) s2
               else if d \<noteq> CHR '','' then DecodeError ''Expecting ',' delimiter''
               else scan n (Elements (values @ [v])) (skip_ws s2)))"

definition scan_once :: "string \<Rightarrow> scan_result" where
  "scan_once s = scan (2 * length s + 1) Value s"

text \<open>
  \<open>decoder.raw_decode(data, position)\<close>: the value and the end index, or \<open>None\<close> where the
  library raises \<open>JSONDecodeError\<close>, a \<open>ValueError\<close>.
\<close>

definition raw_decode :: "string \<Rightarrow> nat \<Rightarrow> (json \<times> nat) option" where
  "raw_decode data position =
     (case scan_once (drop position data) of
        Scanned obj rest \<Rightarrow> Some (obj, length data - length rest)
      | _ \<Rightarrow> None)"

text \<open>
  \<open>json.loads(text)\<close>, which is what \<open>response.json()\<close> returns or raises: leading white
  space is skipped, one value is scanned, and anything but white space after it is the
  error \<open>Extra data\<close>.
\<close>

definition py_loads :: "string \<Rightarrow> string + json" where
  "py_loads s =
     (case scan_once (skip_ws s) of
        Scanned obj rest \<Rightarrow> if skip_ws rest \<noteq> [] then Inl ''Extra data'' else Inr obj
      | StopIteration \<Rightarrow> Inl ''Expecting value''
      | DecodeError msg \<Rightarrow> Inl msg
      | OutOfFuel \<Rightarrow> Inl ''maximum recursion depth exceeded'')"

subsection \<open>The scanner consumes text\<close>

lemma skip_ws_length: "length (skip_ws s) \<le> length s"
  by (simp add: skip_ws_def length_dropWhile_le)

lemma py_scanstring_length:
  "py_scanstring chunks s = Inr (str, rest) \<Longrightarrow> length rest < length s"
proof (induction chunks s rule: py_scanstring.induct)
  case (1 chunks)
  then show ?case by simp
next
  case (2 chunks c s)
  then show ?case
    by (auto split: if_splits list.splits option.splits) fastforce+
qed

lemma match_fraction_length: "length (snd (match_fraction s)) \<le> length s"
  by (auto simp: match_fraction_def length_dropWhile_le le_SucI split: list.splits)

lemma match_exponent_length: "length (snd (match_exponent s)) \<le> length s"
  by (auto simp: match_exponent_def Let_def length_dropWhile_le le_SucI split: list.splits
      intro: order_trans[OF length_dropWhile_le])

lemma match_number_length:
  assumes "match_number s = Some (g, rest)"
  shows "length rest < length s"
proof -
  define sg where "sg = (case s of [] \<Rightarrow> [] | g # _ \<Rightarrow> if g = CHR ''-'' then [g] else [])"
  define s1 where "s1 = drop (length sg) s"
  from assms obtain d s2 where s1: "s1 = d # s2"
    by (cases s1) (auto simp: match_number_def Let_def sg_def s1_def)
  define s3 where "s3 = (if d = CHR ''0'' then s2 else dropWhile is_digit s2)"
  have rest: "rest = snd (match_exponent (snd (match_fraction s3)))"
    using assms s1 unfolding match_number_def Let_def sg_def[symmetric] s1_def[symmetric] s3_def
    by (auto split: if_splits)
  have "length rest \<le> length s3"
    unfolding rest
    by (rule order_trans[OF match_exponent_length match_fraction_length])
  also have "length s3 \<le> length s2"
    by (simp add: s3_def length_dropWhile_le)
  also have "length s2 < length s1" by (simp add: s1)
  also have "length s1 \<le> length s" by (simp add: s1_def)
  finally show ?thesis .
qed

lemma skip_ws_Cons_length: "skip_ws s = c # r \<Longrightarrow> length r < length s"
  using skip_ws_length[of s] by simp

lemma scan_length:
  "scan n task s = Scanned v rest \<Longrightarrow> length rest < length s"
proof (induction n arbitrary: task s v rest)
  case 0
  then show ?case by simp
next
  case (Suc n)
  note IH = Suc.IH
  have IH': "length r < length s'" if "scan n t (skip_ws s') = Scanned w r" for t s' w r
    using IH[OF that] skip_ws_length[of s'] by simp
  show ?case
  proof (cases task)
    case Value
    show ?thesis
    proof (cases s)
      case Nil
      with Suc.prems Value show ?thesis by simp
    next
      case (Cons nextchar s1)
      from Suc.prems Value Cons show ?thesis
        by (auto split: if_splits sum.splits list.splits option.splits prod.splits
            dest!: IH py_scanstring_length match_number_length skip_ws_Cons_length)
    qed
  next
    case (Members pairs)
    from Suc.prems Members show ?thesis
      by (auto split: if_splits sum.splits list.splits option.splits prod.splits scan_result.splits
            dest!: IH IH' py_scanstring_length skip_ws_Cons_length)
  next
    case (Elements vs)
    from Suc.prems Elements show ?thesis
      by (auto split: if_splits sum.splits list.splits option.splits prod.splits scan_result.splits
            dest!: IH IH' py_scanstring_length skip_ws_Cons_length)
  qed
qed

lemma if_neq: "(P \<Longrightarrow> a \<noteq> c) \<Longrightarrow> (\<not> P \<Longrightarrow> b \<noteq> c) \<Longrightarrow> (if P then a else b) \<noteq> c"
  by simp

lemma scan_fuel:
  "(case task of Value \<Rightarrow> 2 * length s + 1 | _ \<Rightarrow> 2 * length s + 2) \<le> n \<Longrightarrow>
   scan n task s \<noteq> OutOfFuel"
proof (induction n arbitrary: task s)
  case 0
  then show ?case by (cases task) auto
next
  case (Suc n)
  have val: "scan n Value s' \<noteq> OutOfFuel" if "2 * length s' + 1 \<le> n" for s'
    using Suc.IH[where task=Value and s=s'] that by simp
  have mem: "scan n (Members ps) s' \<noteq> OutOfFuel" if "2 * length s' + 2 \<le> n" for s' ps
    using Suc.IH[where task="Members ps" and s=s'] that by simp
  have elt: "scan n (Elements vs) s' \<noteq> OutOfFuel" if "2 * length s' + 2 \<le> n" for s' vs
    using Suc.IH[where task="Elements vs" and s=s'] that by simp
  show ?case
  proof (cases task)
    case Value
    show ?thesis
    proof (cases s)
      case Nil
      with Value show ?thesis by simp
    next
      case (Cons nextchar s1)
      have n: "2 * length s1 + 2 \<le> n" using Suc.prems Value Cons by simp
      have a: "scan n (Members []) r \<noteq> OutOfFuel" if "skip_ws s1 = c # r" for c r
        using skip_ws_Cons_length[OF that] n by (intro mem) simp
      have b: "scan n (Elements []) (skip_ws s1) \<noteq> OutOfFuel"
        using skip_ws_length[of s1] n by (intro elt) simp
      have c: "(case skip_ws s1 of
               [] \<Rightarrow> DecodeError m
             | c # rest \<Rightarrow>
                 if c = CHR ''}'' then Scanned (JDict []) rest
                 else if c = DQUOTE then scan n (Members []) rest
                 else DecodeError m) \<noteq> OutOfFuel" for m
        using a by (cases "skip_ws s1") auto
      have d: "(case skip_ws s1 of
               [] \<Rightarrow> scan n (Elements []) []
             | c # rest \<Rightarrow>
                 if c = CHR '']'' then Scanned (JList []) rest
                 else scan n (Elements []) (c # rest)) \<noteq> OutOfFuel"
        using b by (cases "skip_ws s1") auto
      have e: "(case x of Inl msg \<Rightarrow> DecodeError msg
                 | Inr (str, rest) \<Rightarrow> Scanned (JStr str) rest) \<noteq> OutOfFuel"
        for x :: "string + string \<times> string"
        by (auto split: sum.splits)
      have f: "(case y of
               Some ((integer, fraction, expo), rest) \<Rightarrow>
                 if fraction \<noteq> [] \<or> expo \<noteq> [] then Scanned (JFloat (integer @ fraction @ expo)) rest
                 else Scanned (JInt (py_int integer)) rest
             | None \<Rightarrow> z) \<noteq> OutOfFuel" if "z \<noteq> OutOfFuel"
        for y :: "((string \<times> string \<times> string) \<times> string) option" and z
        using that by (auto split: option.splits)
      show ?thesis
        unfolding Value Cons scan.simps list.case
        by (intro c d e f if_neq) simp_all
    qed
  next
    case (Members pairs)
    have n: "2 * length s + 1 \<le> n" using Suc.prems Members by simp
    have a: "scan n Value (skip_ws s2) \<noteq> OutOfFuel"
      if "py_scanstring [] s = Inr (key, s1)" "skip_ws s1 = c # s2" for key s1 c s2
      using py_scanstring_length[OF that(1)] skip_ws_Cons_length[OF that(2)]
        skip_ws_length[of s2] n by (intro val) simp
    have b: "scan n (Members ps) s5 \<noteq> OutOfFuel"
      if "py_scanstring [] s = Inr (key, s1)" "skip_ws s1 = c # s2"
         "scan n Value (skip_ws s2) = Scanned v s3" "skip_ws s3 = d # s4" "skip_ws s4 = q # s5"
      for key s1 c s2 v s3 d s4 q s5 ps
      using py_scanstring_length[OF that(1)] skip_ws_Cons_length[OF that(2)]
        skip_ws_length[of s2] scan_length[OF that(3)] skip_ws_Cons_length[OF that(4)]
        skip_ws_Cons_length[OF that(5)] n by (intro mem) simp
    from Members a b show ?thesis
      by (auto split: if_splits sum.splits list.splits option.splits prod.splits scan_result.splits)
  next
    case (Elements vs)
    have n: "2 * length s + 1 \<le> n" using Suc.prems Elements by simp
    have a: "scan n Value s \<noteq> OutOfFuel" using n by (intro val)
    have b: "scan n (Elements ws) (skip_ws s2) \<noteq> OutOfFuel"
      if "scan n Value s = Scanned v s1" "skip_ws s1 = d # s2" for v s1 d s2 ws
      using scan_length[OF that(1)] skip_ws_Cons_length[OF that(2)] skip_ws_length[of s2] n
      by (intro elt) simp
    from Elements a b show ?thesis
      by (auto split: if_splits sum.splits list.splits option.splits prod.splits scan_result.splits)
  qed
qed

lemma scan_once_fuel: "scan_once s \<noteq> OutOfFuel"
  unfolding scan_once_def by (rule scan_fuel) simp

lemma raw_decode_Some:
  assumes "raw_decode data position = Some (obj, position')"
  shows "position < position'" and "position' \<le> length data" and "position < length data"
proof -
  from assms obtain rest where r: "scan_once (drop position data) = Scanned obj rest"
    and p: "position' = length data - length rest"
    by (auto simp: raw_decode_def split: scan_result.splits)
  from r have "length rest < length (drop position data)"
    unfolding scan_once_def by (rule scan_length)
  then show "position < position'" "position' \<le> length data" "position < length data"
    using p by auto
qed

section \<open>\<open>json_decoder\<close>\<close>

text \<open>
  The module-level function \<open>json_decoder(data)\<close>: values are decoded one after the other
  with \<open>raw_decode\<close>, the position moving one character past the end of each value, until
  \<open>raw_decode\<close> raises \<open>ValueError\<close>. A single decoded value is returned as it is, any
  other number of them as a list. The loop ends because every decoded value takes at least
  one character (\<open>raw_decode_Some\<close>).
\<close>

function json_decoder_loop :: "string \<Rightarrow> nat \<Rightarrow> json list \<Rightarrow> json list" where
  "json_decoder_loop data position decoded_data =
     (case raw_decode data position of
        None \<Rightarrow> decoded_data
      | Some (obj, position') \<Rightarrow> json_decoder_loop data (position' + 1) (decoded_data @ [obj]))"
  by pat_completeness auto
termination
proof (relation "measure (\<lambda>(data, position, decoded_data). length data - position)")
  show "wf (measure (\<lambda>(data, position, decoded_data). length data - position))" by simp
next
  fix data :: string and position x2 x y and decoded_data :: "json list"
  assume "raw_decode data position = Some x2" and "(x, y) = x2"
  then have "raw_decode data position = Some (x, y)" by simp
  from raw_decode_Some[OF this]
  show "((data, y + 1, decoded_data @ [x]), (data, position, decoded_data))
          \<in> measure (\<lambda>(data, position, decoded_data). length data - position)"
    by simp
qed

definition json_decoder :: "string \<Rightarrow> json" where
  "json_decoder data =
     (let decoded_data = json_decoder_loop data 0 []
      in if length decoded_data = 1 then decoded_data ! 0 else JList decoded_data)"

section \<open>Python operations on decoded values\<close>

text \<open>A line feed, the one-character string \<open>'\n'\<close> of the source.\<close>

definition NL :: string where "NL = [CHR 0x0A]"

fun show_nat :: "nat \<Rightarrow> string" where
  "show_nat n = (if n < 10 then [char_of (48 + n)] else show_nat (n div 10) @ [char_of (48 + n mod 10)])"

declare show_nat.simps [simp del]

text \<open>\<open>'%d' % i\<close>, and \<open>str(i)\<close> of an \<open>int\<close>.\<close>

definition show_int :: "int \<Rightarrow> string" where
  "show_int i = (if i < 0 then CHR ''-'' # show_nat (nat (- i)) else show_nat (nat i))"

text \<open>
  \<open>float(lit) != 0.0\<close> for a literal of the number pattern: the literal denotes
  \<open>m * 10 ^ k\<close>, and the nearest double of a non-zero value is zero exactly when the
  value is at most \<open>2 ^ -1075\<close> in magnitude. \<open>NaN\<close> and the infinities are not zero.
\<close>

definition float_nonzero :: "string \<Rightarrow> bool" where
  "float_nonzero lit =
     (case match_number lit of
        None \<Rightarrow> True
      | Some ((integer, fraction, expo), rest) \<Rightarrow>
          (let m = nat_of_digits (filter is_digit (integer @ fraction));
               e = (case expo of
                      [] \<Rightarrow> 0
                    | _ # r \<Rightarrow>
                        (case r of
                           [] \<Rightarrow> 0
                         | g # ds \<Rightarrow>
                             if g = CHR ''-'' then - int (nat_of_digits ds)
                             else if g = CHR ''+'' then int (nat_of_digits ds)
                             else int (nat_of_digits r)));
               k = e - int (length fraction - 1)
           in m \<noteq> 0 \<and> (0 \<le> k \<or> 10 ^ nat (- k) < m * 2 ^ 1075)))"

text \<open>The truth value Python gives a decoded value in \<open>if value:\<close>.\<close>

fun py_truthy :: "json \<Rightarrow> bool" where
  "py_truthy JNull = False"
| "py_truthy (JBool b) = b"
| "py_truthy (JInt i) = (i \<noteq> 0)"
| "py_truthy (JFloat lit) = float_nonzero lit"
| "py_truthy (JStr s) = (s \<noteq> [])"
| "py_truthy (JList xs) = (xs \<noteq> [])"
| "py_truthy (JDict d) = (d \<noteq> [])"

text \<open>\<open>isinstance(value, (dict, list))\<close>.\<close>

fun is_dict_or_list :: "json \<Rightarrow> bool" where
  "is_dict_or_list (JList xs) = True"
| "is_dict_or_list (JDict d) = True"
| "is_dict_or_list v = False"

text \<open>
  The value \<open>item\<close> holds when one of the two \<open>for\<close> loops of \<open>_finditem\<close> ends: the first
  result that is not \<open>None\<close> (where the loop breaks), and \<open>None\<close> when there is none.
\<close>

fun first_not_None :: "json list \<Rightarrow> json" where
  "first_not_None [] = JNull"
| "first_not_None (item # items) = (if item \<noteq> JNull then item else first_not_None items)"

text \<open>
  \<open>CvpClient._finditem(obj, key)\<close>. A key that is present with the value \<open>null\<close> gives
  \<open>None\<close>, as a key that is absent does.
\<close>

fun finditem :: "json \<Rightarrow> string \<Rightarrow> json" where
  "finditem (JDict d) key =
     (case map_of d key of
        Some item \<Rightarrow> item
      | None \<Rightarrow>
          first_not_None
            (map (\<lambda>kv. if is_dict_or_list (snd kv) then finditem (snd kv) key else JNull) d))"
| "finditem (JList xs) key =
     first_not_None (map (\<lambda>i. if is_dict_or_list i then finditem i key else JNull) xs)"
| "finditem obj key = JNull"

section \<open>Exceptions\<close>

datatype requests_exception =
    ConnectionError
  | ConnectTimeout
  | HTTPError
  | TooManyRedirects
  | ReadTimeout
  | Timeout
  | RequestException

text \<open>
  The classes of \<open>requests.exceptions\<close> that the client names, with \<open>RequestException\<close>
  standing for every other one. \<open>ConnectTimeout\<close> derives from both \<open>ConnectionError\<close> and
  \<open>Timeout\<close>, \<open>ReadTimeout\<close> from \<open>Timeout\<close>, and all of them from \<open>RequestException\<close>.
\<close>

fun req_isinstance :: "requests_exception \<Rightarrow> requests_exception \<Rightarrow> bool" where
  "req_isinstance c RequestException = True"
| "req_isinstance ConnectTimeout ConnectionError = True"
| "req_isinstance ConnectTimeout Timeout = True"
| "req_isinstance ReadTimeout Timeout = True"
| "req_isinstance c d = (c = d)"

text \<open>
  What the client can raise. The four \<open>Cvp\<close> classes come from \<open>cvprac.cvp_client_errors\<close>,
  which the client imports by name as four classes; each carries its message \<open>msg\<close>.
  A \<open>JSONDecodeError\<close> is a \<open>ValueError\<close> in Python; it is kept apart from the
  \<open>ValueError\<close> that the client raises itself.
\<close>

datatype exn =
    Requests requests_exception string
  | CvpApiError string
  | CvpLoginError string
  | CvpRequestError string
  | CvpSessionLogOutError string
  | ValueError string
  | JSONDecodeError string
  | InvalidVersion string
  | KeyError string
  | TypeError string
  | IndexError string
  | AttributeError string
  | UnboundLocalError string
  | StopIterationError

datatype 'a outcome = Return 'a | Raise exn

text \<open>\<open>str(error)\<close>, as \<open>'%s: %s\n' % (host, error)\<close> formats an error.\<close>

fun exn_str :: "exn \<Rightarrow> string" where
  "exn_str (Requests c msg) = msg"
| "exn_str (CvpApiError msg) = msg"
| "exn_str (CvpLoginError msg) = msg"
| "exn_str (CvpRequestError msg) = msg"
| "exn_str (CvpSessionLogOutError msg) = msg"
| "exn_str (ValueError msg) = msg"
| "exn_str (JSONDecodeError msg) = msg"
| "exn_str (InvalidVersion msg) = msg"
| "exn_str (KeyError msg) = msg"
| "exn_str (TypeError msg) = msg"
| "exn_str (IndexError msg) = msg"
| "exn_str (AttributeError msg) = msg"
| "exn_str (UnboundLocalError msg) = msg"
| "exn_str StopIterationError = []"

text \<open>
  \<open>key in obj\<close> for a string \<open>key\<close>: membership among the keys of a \<open>dict\<close>, among the
  elements of a \<open>list\<close>, as a substring of a \<open>str\<close>; any other value is not iterable.
\<close>

fun py_in :: "string \<Rightarrow> json \<Rightarrow> bool outcome" where
  "py_in key (JDict d) = Return (key \<in> fst ` set d)"
| "py_in key (JList xs) = Return (JStr key \<in> set xs)"
| "py_in key (JStr s) = Return (sublist key s)"
| "py_in key obj = Raise (TypeError ''argument is not iterable'')"

text \<open>\<open>obj[key]\<close> for a string \<open>key\<close>.\<close>

fun py_getitem :: "json \<Rightarrow> string \<Rightarrow> json outcome" where
  "py_getitem (JDict d) key =
     (case map_of d key of Some v \<Rightarrow> Return v | None \<Rightarrow> Raise (KeyError key))"
| "py_getitem (JList xs) key = Raise (TypeError ''list indices must be integers or slices, not str'')"
| "py_getitem (JStr s) key = Raise (TypeError ''string indices must be integers'')"
| "py_getitem obj key = Raise (TypeError ''object is not subscriptable'')"

text \<open>
  The elements \<open>error_list[0]\<close>, ..., \<open>error_list[len(error_list) - 1]\<close> that
  \<open>_is_good_response\<close> reads, the first one unconditionally: an empty list or string has no
  element \<open>0\<close>, a \<open>dict\<close> has no key \<open>0\<close> (its keys are strings), and other values cannot
  be indexed.
\<close>

fun py_elements :: "json \<Rightarrow> json list outcome" where
  "py_elements (JList xs) =
     (if xs = [] then Raise (IndexError ''list index out of range'') else Return xs)"
| "py_elements (JStr s) =
     (if s = [] then Raise (IndexError ''string index out of range'')
      else Return (map (\<lambda>c. JStr [c]) s))"
| "py_elements (JDict d) = Raise (KeyError ''0'')"
| "py_elements obj = Raise (TypeError ''object is not subscriptable'')"

section \<open>The transport\<close>

type_synonym cookiejar = "(string \<times> string) list"

text \<open>
  A \<open>requests.Response\<close>: \<open>response.ok\<close>, \<open>response.reason\<close>, the body and the cookies.
  \<open>bool(response)\<close> is \<open>response.ok\<close>.
\<close>

record response =
  ok :: bool
  reason :: string
  content :: string
  resp_cookies :: cookiejar

definition text_of :: "response \<Rightarrow> string" where
  "text_of r = content r"

text \<open>\<open>response.json()\<close>: the decoded body, or the message of the \<open>JSONDecodeError\<close>.\<close>

definition response_json :: "response \<Rightarrow> string + json" where
  "response_json r = py_loads (text_of r)"

datatype cert = Verify bool | CertFile string

text \<open>
  One call of \<open>session.get\<close>, \<open>session.post\<close> or \<open>session.delete\<close>: the arguments the client
  passes, and the \<open>Session\<close> object it calls. \<open>req_data\<close> is the value handed to
  \<open>json.dumps\<close>.
\<close>

record request =
  req_method :: string
  req_url :: string
  req_cookies :: "cookiejar option"
  req_data :: "json option"
  req_headers :: "(string \<times> json) list"
  req_timeout :: "int option \<times> int option"
  req_verify :: cert
  req_files :: "(string \<times> string) list option"
  via :: nat

datatype net_result = Answer response | Fails requests_exception string

text \<open>
  What the client cannot decide itself: \<open>net n r\<close> is what the network does with the call
  \<open>r\<close> when \<open>n\<close> calls were made before it; \<open>py_repr\<close> is Python's \<open>str()\<close> of a float, a
  list or a dict; \<open>CURRENT_NODE_IP\<close> is \<open>os.environ.get('CURRENT_NODE_IP')\<close>.
\<close>

record env =
  net :: "nat \<Rightarrow> request \<Rightarrow> net_result"
  py_repr :: "json \<Rightarrow> string"
  CURRENT_NODE_IP :: "string option"

text \<open>\<open>'%s' % value\<close>.\<close>

fun py_str :: "env \<Rightarrow> json \<Rightarrow> string" where
  "py_str e (JStr s) = s"
| "py_str e JNull = ''None''"
| "py_str e (JBool b) = (if b then ''True'' else ''False'')"
| "py_str e (JInt i) = show_int i"
| "py_str e v = py_repr e v"

section \<open>The client\<close>

text \<open>
  The attributes of \<open>CvpClient\<close> (the logger and the \<open>CvpApi\<close> object apart, of which only
  \<open>api.request_timeout\<close> is kept). An attribute that \<open>__init__\<close> sets to \<open>None\<close> is an
  option. \<open>node_pool\<close> is \<open>itertools.cycle(nodes)\<close>: the items and the number of \<open>next\<close>
  calls made. \<open>session\<close> names the \<open>requests.Session\<close> object by the number of objects
  created before it (\<open>n_sessions\<close>). \<open>sent\<close> lists the calls made on the network so far.
\<close>

record client =
  apiversion :: "real option"
  authdata :: json
  cert :: cert
  connect_timeout :: "int option"
  cookies :: "cookiejar option"
  error_msg :: string
  node_cnt :: "nat option"
  node_pool :: "(string list \<times> nat) option"
  nodes :: "string list option"
  port :: "int option"
  protocol :: "string option"
  session :: "nat option"
  url_prefix :: "string option"
  url_prefix_short :: "string option"
  is_cvaas :: bool
  tenant :: "string option"
  cvaas_token :: "string option"
  api_token :: "string option"
  version :: "string option"
  last_used_node :: "string option"
  headers :: "(string \<times> json) list"
  request_timeout :: "int option"
  n_sessions :: nat
  sent :: "request list"

definition NUM_RETRY_REQUESTS :: nat where "NUM_RETRY_REQUESTS = 3"

definition LATEST_API_VERSION :: real where "LATEST_API_VERSION = 8"

text \<open>The client as \<open>__init__\<close> leaves it.\<close>

definition init :: client where
  "init = \<lparr> apiversion = None, authdata = JNull, cert = Verify False, connect_timeout = None,
            cookies = None, error_msg = [], node_cnt = None, node_pool = None, nodes = None,
            port = None, protocol = None, session = None, url_prefix = None,
            url_prefix_short = None, is_cvaas = False, tenant = None, cvaas_token = None,
            api_token = None, version = None, last_used_node = None,
            headers = [(''Accept'', JStr ''application/json''),
                       (''Content-Type'', JStr ''application/json'')],
            request_timeout = None, n_sessions = 0, sent = [] \<rparr>"

subsection \<open>\<open>_is_good_response\<close>\<close>

text \<open>
  The message \<open>err_msg\<close> as \<open>'%s: Request Error: %s' % (prefix, err_msg)\<close> prints it: the
  value of \<open>errorMessage\<close>, or else the elements of \<open>errors\<close> (of the one-element list
  \<open>[joutput['errorCode']]\<close> when there is no \<open>errors\<close>) joined by line feeds.
\<close>

fun join_lines :: "string list \<Rightarrow> string" where
  "join_lines [] = []"
| "join_lines [l] = l"
| "join_lines (l # ls) = l @ NL @ join_lines ls"

definition err_msg_of :: "env \<Rightarrow> json \<Rightarrow> string outcome" where
  "err_msg_of e joutput =
     (case py_in ''errorMessage'' joutput of
        Raise x \<Rightarrow> Raise x
      | Return True \<Rightarrow>
          (case py_getitem joutput ''errorMessage'' of
             Raise x \<Rightarrow> Raise x
           | Return err_msg \<Rightarrow> Return (py_str e err_msg))
      | Return False \<Rightarrow>
          (case py_in ''errors'' joutput of
             Raise x \<Rightarrow> Raise x
           | Return has_errors \<Rightarrow>
               (case (if has_errors then py_getitem joutput ''errors''
                      else (case py_getitem joutput ''errorCode'' of
                              Raise x \<Rightarrow> Raise x
                            | Return code \<Rightarrow> Return (JList [code]))) of
                  Raise x \<Rightarrow> Raise x
                | Return error_list \<Rightarrow>
                    (case py_elements error_list of
                       Raise x \<Rightarrow> Raise x
                     | Return items \<Rightarrow> Return (join_lines (map (py_str e) items))))))"

definition is_good_response :: "env \<Rightarrow> response \<Rightarrow> string \<Rightarrow> unit outcome" where
  "is_good_response e response pfx =
     (if \<not> ok response then
        (if sublist ''Unauthorized'' (reason response)
         then Raise (CvpApiError (pfx @ '': Request Error: '' @ reason response))
         else if sublist ''User is unauthorized'' (text_of response)
         then Raise (CvpApiError (pfx @ '': Request Error: User is unauthorized''))
         else Raise (CvpRequestError
                (pfx @ '': Request Error: '' @ reason response @ '' - '' @ text_of response)))
      else if sublist ''LOG OUT MESSAGE'' (text_of response)
      then Raise (CvpSessionLogOutError (pfx @ '': Request Error: session logged out''))
      else
        (let joutput = json_decoder (text_of response);
             err_code_val = finditem joutput ''errorCode''
         in if py_truthy err_code_val then
              (case err_msg_of e joutput of
                 Raise x \<Rightarrow> Raise x
               | Return err_msg \<Rightarrow> Raise (CvpApiError (pfx @ '': Request Error: '' @ err_msg)))
            else Return ()))"

subsection \<open>Logging in\<close>

text \<open>
  A call on the network through \<open>self.session\<close>: the call is added to \<open>sent\<close>, and the
  network answers it.
\<close>

definition transport :: "env \<Rightarrow> request \<Rightarrow> client \<Rightarrow> net_result \<times> client" where
  "transport e r s = (net e (length (sent s)) r, s\<lparr>sent := sent s @ [r]\<rparr>)"

text \<open>\<open>_set_headers_api_token\<close>.\<close>

definition set_headers_api_token :: "string \<Rightarrow> client \<Rightarrow> client" where
  "set_headers_api_token token s =
     s\<lparr>headers := dict_set ''Authorization'' (JStr (''Bearer '' @ token)) (headers s)\<rparr>"

text \<open>\<open>_login_on_prem\<close>.\<close>

definition login_on_prem :: "env \<Rightarrow> client \<Rightarrow> unit outcome \<times> client" where
  "login_on_prem e s =
     (case url_prefix s of
        None \<Rightarrow> (Raise (TypeError ''unsupported operand type(s) for +''), s)
      | Some up \<Rightarrow>
          (let url = up @ ''/login/authenticate.do'' in
           case session s of
             None \<Rightarrow> (Raise (AttributeError ''post''), s)
           | Some sid \<Rightarrow>
               (case transport e
                       \<lparr> req_method = ''POST'', req_url = url, req_cookies = None,
                         req_data = Some (authdata s), req_headers = headers s,
                         req_timeout = (connect_timeout s, connect_timeout s),
                         req_verify = cert s, req_files = None, via = sid \<rparr> s of
                  (Fails c msg, s1) \<Rightarrow> (Raise (Requests c msg), s1)
                | (Answer response, s1) \<Rightarrow>
                    (case is_good_response e response (''Authenticate: '' @ url) of
                       Raise x \<Rightarrow> (Raise x, s1)
                     | Return u \<Rightarrow>
                         (let s2 = s1\<lparr>cookies := Some (resp_cookies response)\<rparr> in
                          case response_json response of
                            Inl msg \<Rightarrow> (Raise (JSONDecodeError msg), s2)
                          | Inr j \<Rightarrow>
                              (case py_getitem j ''sessionId'' of
                                 Raise x \<Rightarrow> (Raise x, s2)
                               | Return sessionId \<Rightarrow>
                                   (Return (),
                                    s2\<lparr>headers :=
                                         dict_set ''APP_SESSION_ID'' sessionId (headers s2)\<rparr>)))))))"

text \<open>\<open>_login\<close>.\<close>

definition login :: "env \<Rightarrow> client \<Rightarrow> unit outcome \<times> client" where
  "login e s =
     (let s0 = s\<lparr>headers := dict_pop ''APP_SESSION_ID'' (headers s)\<rparr> in
      case api_token s0 of
        Some token \<Rightarrow> (Return (), set_headers_api_token token s0)
      | None \<Rightarrow>
          if is_cvaas s0
          then (Raise (CvpLoginError
                  (''CVaaS only supports API token authentication.''
                   @ '' Please create an API token and provide it''
                   @ '' via the api_token parameter in combination''
                   @ '' with the is_cvaas parameter'')), s0)
          else login_on_prem e s0)"

subsection \<open>\<open>_reset_session\<close> and \<open>_create_session\<close>\<close>

text \<open>
  The \<open>except\<close> clause of \<open>_reset_session\<close>: \<open>ConnectionError\<close>, \<open>CvpApiError\<close>,
  \<open>CvpRequestError\<close>, \<open>CvpSessionLogOutError\<close>, \<open>HTTPError\<close>, \<open>ReadTimeout\<close>, \<open>Timeout\<close>,
  \<open>TooManyRedirects\<close>.
\<close>

fun reset_session_catches :: "exn \<Rightarrow> bool" where
  "reset_session_catches (Requests c msg) =
     (req_isinstance c ConnectionError \<or> req_isinstance c HTTPError \<or>
      req_isinstance c ReadTimeout \<or> req_isinstance c Timeout \<or>
      req_isinstance c TooManyRedirects)"
| "reset_session_catches (CvpApiError msg) = True"
| "reset_session_catches (CvpRequestError msg) = True"
| "reset_session_catches (CvpSessionLogOutError msg) = True"
| "reset_session_catches x = False"

text \<open>
  \<open>_reset_session\<close>: the value returned is \<open>return_error\<close>, \<open>None\<close> or the error caught;
  an error that the clause does not catch leaves the method as an exception.
\<close>

definition reset_session :: "env \<Rightarrow> client \<Rightarrow> exn option outcome \<times> client" where
  "reset_session e s =
     (let s0 = s\<lparr>session := Some (n_sessions s), n_sessions := n_sessions s + 1\<rparr> in
      case login e s0 of
        (Return u, s1) \<Rightarrow> (Return None, s1)
      | (Raise error, s1) \<Rightarrow>
          if reset_session_catches error
          then (Return (Some error), s1\<lparr>session := None\<rparr>)
          else (Raise error, s1))"

text \<open>\<open>self.port or 443\<close>.\<close>

definition port_or_443 :: "client \<Rightarrow> int" where
  "port_or_443 s = (case port s of None \<Rightarrow> 443 | Some p \<Rightarrow> if p = 0 then 443 else p)"

text \<open>The \<open>for\<close> loop of \<open>_create_session\<close>, with the number of rounds that are left.\<close>

fun create_session_loop :: "env \<Rightarrow> nat \<Rightarrow> client \<Rightarrow> unit outcome \<times> client" where
  "create_session_loop e 0 s = (Return (), s)"
| "create_session_loop e (Suc k) s =
     (case node_pool s of
        None \<Rightarrow> (Raise (TypeError ''object is not an iterator''), s)
      | Some (items, calls) \<Rightarrow>
          if items = [] then (Raise StopIterationError, s)
          else
            (let host = items ! (calls mod length items);
                 s1 = s\<lparr> node_pool := Some (items, calls + 1),
                         url_prefix := Some (''https://'' @ host @ '':'' @ show_int (port_or_443 s) @ ''/web''),
                         url_prefix_short := Some (''https://'' @ host @ '':'' @ show_int (port_or_443 s)) \<rparr>
             in case reset_session e s1 of
                  (Raise x, s2) \<Rightarrow> (Raise x, s2)
                | (Return None, s2) \<Rightarrow> (Return (), s2)
                | (Return (Some error), s2) \<Rightarrow>
                    create_session_loop e k
                      (s2\<lparr>error_msg := error_msg s2 @ host @ '': '' @ exn_str error @ NL\<rparr>)))"

text \<open>\<open>_create_session(all_nodes)\<close>.\<close>

definition create_session :: "env \<Rightarrow> bool \<Rightarrow> client \<Rightarrow> unit outcome \<times> client" where
  "create_session e all_nodes s =
     (case node_cnt s of
        None \<Rightarrow>
          if all_nodes
          then (Raise (TypeError ''object cannot be interpreted as an integer''), s\<lparr>error_msg := NL\<rparr>)
          else (Raise (TypeError ''not supported between instances''), s)
      | Some cnt \<Rightarrow>
          (let num_nodes = (if \<not> all_nodes \<and> 1 < cnt then cnt - 1 else cnt)
           in create_session_loop e num_nodes (s\<lparr>error_msg := NL\<rparr>)))"

subsection \<open>\<open>_send_request\<close>\<close>

text \<open>
  The call that one round of \<open>_send_request\<close> makes: \<open>session.get\<close>, \<open>session.post\<close> (with the
  reduced headers \<open>fhs\<close> when files are sent) or \<open>session.delete\<close>. Another \<open>req_type\<close> makes
  no call and leaves \<open>response\<close> unbound.
\<close>

definition request_call ::
  "string \<Rightarrow> string \<Rightarrow> int \<Rightarrow> json \<Rightarrow> (string \<times> string) list option \<Rightarrow> client \<Rightarrow> request outcome"
where
  "request_call req_type full_url timeout data files s =
     (let call = (\<lambda>m d h f.
            case session s of
              None \<Rightarrow> Raise (AttributeError m)
            | Some sid \<Rightarrow>
                Return \<lparr> req_method = req_type, req_url = full_url, req_cookies = cookies s,
                         req_data = d, req_headers = h,
                         req_timeout = (connect_timeout s, Some timeout),
                         req_verify = cert s, req_files = f, via = sid \<rparr>)
      in if req_type = ''GET'' then call ''get'' None (headers s) None
         else if req_type = ''POST'' then
           (case files of
              None \<Rightarrow> call ''post'' (Some data) (headers s) None
            | Some fs \<Rightarrow>
                (case map_of (headers s) ''Accept'' of
                   None \<Rightarrow> Raise (KeyError ''Accept'')
                 | Some accept \<Rightarrow>
                     call ''post'' None
                       ([(''Accept'', accept)]
                        @ (case map_of (headers s) ''APP_SESSION_ID'' of
                             None \<Rightarrow> [] | Some v \<Rightarrow> [(''APP_SESSION_ID'', v)])
                        @ (case map_of (headers s) ''Authorization'' of
                             None \<Rightarrow> [] | Some v \<Rightarrow> [(''Authorization'', v)]))
                       (Some fs)))
         else if req_type = ''DELETE'' then call ''delete'' (Some data) (headers s) None
         else Raise (UnboundLocalError ''response''))"

text \<open>
  \<open>'Unauthorized' in error.msg or 'User is unauthorized' in error.msg\<close>, the test that
  \<open>_send_request\<close> and \<open>_make_request\<close> both make on a \<open>CvpApiError\<close>.
\<close>

definition unauthorized :: "string \<Rightarrow> bool" where
  "unauthorized msg = (sublist ''Unauthorized'' msg \<or> sublist ''User is unauthorized'' msg)"

text \<open>
  The \<open>for req_try in range(self.NUM_RETRY_REQUESTS)\<close> loop of \<open>_send_request\<close>, from the
  round \<open>req_try\<close> on. The method returns the response; a loop that ran out would return
  \<open>None\<close>.
\<close>

function send_request_loop ::
  "env \<Rightarrow> string \<Rightarrow> string \<Rightarrow> int \<Rightarrow> json \<Rightarrow> (string \<times> string) list option \<Rightarrow> nat \<Rightarrow> client
   \<Rightarrow> response option outcome \<times> client"
where
  "send_request_loop e req_type full_url timeout data files req_try s =
     (if NUM_RETRY_REQUESTS \<le> req_try then (Return None, s)
      else
        (case request_call req_type full_url timeout data files s of
           Raise x \<Rightarrow> (Raise x, s)
         | Return r \<Rightarrow>
             (case transport e r s of
                (Fails c msg, s1) \<Rightarrow>
                  if req_isinstance c ConnectionError \<or> req_isinstance c HTTPError \<or>
                     req_isinstance c TooManyRedirects
                  then (Raise (Requests c msg), s1)
                  else if req_isinstance c ReadTimeout \<or> req_isinstance c Timeout then
                    (if req_try + 1 = NUM_RETRY_REQUESTS then (Raise (Requests c msg), s1)
                     else send_request_loop e req_type full_url timeout data files (req_try + 1) s1)
                  else (Raise (Requests c msg), s1)
              | (Answer response, s1) \<Rightarrow>
                  (case is_good_response e response (req_type @ '': '' @ full_url @ '' '') of
                     Return u \<Rightarrow> (Return (Some response), s1)
                   | Raise error \<Rightarrow>
                       (case error of
                          CvpSessionLogOutError msg \<Rightarrow>
                            if req_try + 1 = NUM_RETRY_REQUESTS then (Raise error, s1)
                            else
                              (case reset_session e s1 of
                                 (Raise x, s2) \<Rightarrow> (Raise x, s2)
                               | (Return r, s2) \<Rightarrow>
                                   if session s2 = None then (Raise error, s2)
                                   else send_request_loop e req_type full_url timeout data files
                                          (req_try + 1) s2)
                        | CvpApiError msg \<Rightarrow>
                            if unauthorized msg then
                              (if req_try + 1 = NUM_RETRY_REQUESTS then (Raise error, s1)
                               else
                                 (case reset_session e s1 of
                                    (Raise x, s2) \<Rightarrow> (Raise x, s2)
                                  | (Return r, s2) \<Rightarrow>
                                      if session s2 = None then (Raise error, s2)
                                      else send_request_loop e req_type full_url timeout data files
                                             (req_try + 1) s2))
                            else (Raise error, s1)
                        | _ \<Rightarrow> (Raise error, s1))))))"
  by pat_completeness auto
termination
  by (relation "measure (\<lambda>(e, req_type, full_url, timeout, data, files, req_try, s).
                   NUM_RETRY_REQUESTS - req_try)") auto

declare send_request_loop.simps [simp del]

definition send_request ::
  "env \<Rightarrow> string \<Rightarrow> string \<Rightarrow> int \<Rightarrow> json \<Rightarrow> (string \<times> string) list option \<Rightarrow> client
   \<Rightarrow> response option outcome \<times> client"
where
  "send_request e req_type full_url timeout data files s =
     send_request_loop e req_type full_url timeout data files 0 s"

subsection \<open>\<open>_make_request\<close>\<close>

text \<open>
  \<open>re.match('http[s]?://(.*):', url_prefix).group(1)\<close>: after the scheme, the longest text
  without a line feed that a colon follows.
\<close>

definition match_node :: "string \<Rightarrow> string option" where
  "match_node up =
     (let after = (if prefix ''https://'' up then Some (drop 8 up)
                   else if prefix ''http://'' up then Some (drop 7 up)
                   else None)
      in case after of
           None \<Rightarrow> None
         | Some a \<Rightarrow>
             (let line = takeWhile (\<lambda>c. c \<noteq> CHR 0x0A) a
              in if CHR '':'' \<in> set line
                 then Some (rev (tl (dropWhile (\<lambda>c. c \<noteq> CHR '':'') (rev line))))
                 else None))"

text \<open>The URL that a round of the node loop requests.\<close>

definition full_url_of :: "string \<Rightarrow> client \<Rightarrow> string outcome" where
  "full_url_of url s =
     (if sublist ''/api/'' url \<or> sublist ''/cvpservice/'' url then
        (case url_prefix_short s of
           None \<Rightarrow> Raise (TypeError ''unsupported operand type(s) for +'')
         | Some p \<Rightarrow> Return (p @ url))
      else if is_cvaas s then
        (case url_prefix_short s of
           None \<Rightarrow> Raise (TypeError ''unsupported operand type(s) for +'')
         | Some p \<Rightarrow> Return (p @ ''/cvpservice'' @ url))
      else
        (case url_prefix s of
           None \<Rightarrow> Raise (TypeError ''unsupported operand type(s) for +'')
         | Some p \<Rightarrow> Return (p @ url)))"

text \<open>
  The errors that the second \<open>except\<close> clause of the node loop catches: \<open>ConnectionError\<close>,
  \<open>HTTPError\<close>, \<open>TooManyRedirects\<close>, \<open>ReadTimeout\<close>, \<open>Timeout\<close>, \<open>CvpSessionLogOutError\<close>.
\<close>

fun node_error :: "exn \<Rightarrow> bool" where
  "node_error (Requests c msg) =
     (req_isinstance c ConnectionError \<or> req_isinstance c HTTPError \<or>
      req_isinstance c TooManyRedirects \<or> req_isinstance c ReadTimeout \<or>
      req_isinstance c Timeout)"
| "node_error (CvpSessionLogOutError msg) = True"
| "node_error x = False"

text \<open>
  The \<open>for node_num in range(self.node_cnt)\<close> loop of \<open>_make_request\<close>, from the round
  \<open>node_num\<close> on, over \<open>cnt\<close> rounds. It ends with the values of \<open>response\<close> and \<open>full_url\<close>
  (\<open>None\<close> for \<open>full_url\<close> when it was never bound), or with the error raised.
\<close>

function make_request_loop ::
  "env \<Rightarrow> string \<Rightarrow> string \<Rightarrow> int \<Rightarrow> json \<Rightarrow> (string \<times> string) list option \<Rightarrow> nat \<Rightarrow> nat \<Rightarrow> client
   \<Rightarrow> (response option \<times> string option) outcome \<times> client"
where
  "make_request_loop e req_type url timeout data files cnt node_num s =
     (if cnt \<le> node_num then (Return (None, None), s)
      else
        (case full_url_of url s of
           Raise x \<Rightarrow> (Raise x, s)
         | Return full_url \<Rightarrow>
             (case send_request e req_type full_url timeout data files s of
                (Return response, s1) \<Rightarrow> (Return (response, Some full_url), s1)
              | (Raise error, s1) \<Rightarrow>
                  if (case error of CvpApiError msg \<Rightarrow> unauthorized msg | _ \<Rightarrow> node_error error)
                  then
                    (if node_cnt s1 = Some (node_num + 1) then (Raise error, s1)
                     else
                       (case create_session e False s1 of
                          (Raise x, s2) \<Rightarrow> (Raise x, s2)
                        | (Return u, s2) \<Rightarrow>
                            if session s2 = None then (Raise error, s2)
                            else make_request_loop e req_type url timeout data files cnt
                                   (node_num + 1) s2))
                  else (Raise error, s1))))"
  by pat_completeness auto
termination
  by (relation "measure (\<lambda>(e, req_type, url, timeout, data, files, cnt, node_num, s).
                   cnt - node_num)") auto

declare make_request_loop.simps [simp del]

text \<open>What \<open>_make_request\<close> returns for the response that the node loop ended with.\<close>

definition decode_response :: "response \<Rightarrow> string option \<Rightarrow> json outcome" where
  "decode_response response full_url =
     (if content response = [] \<or> content response = ''null''
      then Return (JDict [(''data'', JList [])])
      else
        (case response_json response of
           Inr resp_data \<Rightarrow>
             if resp_data \<noteq> JNull then
               (case py_in ''result'' resp_data of
                  Raise x \<Rightarrow> Raise x
                | Return has_result \<Rightarrow>
                    if has_result \<and> (case full_url of None \<Rightarrow> False | Some u \<Rightarrow> sublist ''/resources/'' u)
                    then Return (JDict [(''data'', JList [resp_data])])
                    else Return resp_data)
             else Return resp_data
         | Inl err_str \<Rightarrow>
             if sublist ''Extra data'' err_str
             then Return (JDict [(''data'', json_decoder (text_of response))])
             else Raise (JSONDecodeError err_str)))"

definition make_request ::
  "env \<Rightarrow> string \<Rightarrow> string \<Rightarrow> int \<Rightarrow> json \<Rightarrow> (string \<times> string) list option \<Rightarrow> client
   \<Rightarrow> json outcome \<times> client"
where
  "make_request e req_type url timeout data files s =
     (if session s = None then (Raise (ValueError ''No valid session to CVP node''), s)
      else
        (case url_prefix s of
           None \<Rightarrow> (Raise (TypeError ''expected string or bytes-like object''), s)
         | Some up \<Rightarrow>
             (case match_node up of
                None \<Rightarrow> (Raise (AttributeError ''group''), s)
              | Some node \<Rightarrow>
                  (let s0 = s\<lparr>last_used_node := Some node\<rparr> in
                   case node_cnt s0 of
                     None \<Rightarrow> (Raise (TypeError ''object cannot be interpreted as an integer''), s0)
                   | Some cnt \<Rightarrow>
                       (case make_request_loop e req_type url timeout data files cnt 0 s0 of
                          (Raise x, s1) \<Rightarrow> (Raise x, s1)
                        | (Return (None, full_url), s1) \<Rightarrow> (Return JNull, s1)
                        | (Return (Some response, full_url), s1) \<Rightarrow>
                            if \<not> ok response then (Return JNull, s1)
                            else (decode_response response full_url, s1))))))"

text \<open>The public methods \<open>get\<close>, \<open>post\<close> and \<open>delete\<close>.\<close>

definition get :: "env \<Rightarrow> string \<Rightarrow> int \<Rightarrow> client \<Rightarrow> json outcome \<times> client" where
  "get e url timeout s = make_request e ''GET'' url timeout JNull None s"

definition post ::
  "env \<Rightarrow> string \<Rightarrow> json \<Rightarrow> (string \<times> string) list option \<Rightarrow> int \<Rightarrow> client \<Rightarrow> json outcome \<times> client"
where
  "post e url data files timeout s = make_request e ''POST'' url timeout data files s"

definition delete :: "env \<Rightarrow> string \<Rightarrow> json \<Rightarrow> int \<Rightarrow> client \<Rightarrow> json outcome \<times> client" where
  "delete e url data timeout s = make_request e ''DELETE'' url timeout data None s"

subsection \<open>\<open>connect\<close>\<close>

text \<open>
  The arguments of \<open>connect\<close> that the method stores; \<open>username\<close> and \<open>password\<close> go into
  \<open>authdata\<close>.
\<close>

record connect_args =
  arg_nodes :: "string list"
  arg_username :: string
  arg_password :: string
  arg_connect_timeout :: int
  arg_request_timeout :: int
  arg_protocol :: string
  arg_port :: "int option"
  arg_cert :: cert
  arg_is_cvaas :: bool
  arg_tenant :: "string option"
  arg_api_token :: "string option"
  arg_cvaas_token :: "string option"

text \<open>
  The first loop of \<open>connect\<close>: where \<open>CURRENT_NODE_IP\<close> is set (and not empty), the nodes
  \<open>127.0.0.1\<close> and \<open>localhost\<close> are replaced by it.
\<close>

definition mask_nodes :: "env \<Rightarrow> string list \<Rightarrow> string list" where
  "mask_nodes e ns =
     (case CURRENT_NODE_IP e of
        None \<Rightarrow> ns
      | Some ip \<Rightarrow>
          if ip = [] then ns
          else map (\<lambda>n. if n = ''127.0.0.1'' \<or> n = ''localhost'' then ip else n) ns)"

definition connect :: "env \<Rightarrow> connect_args \<Rightarrow> client \<Rightarrow> unit outcome \<times> client" where
  "connect e a s =
     (let ns = mask_nodes e (arg_nodes a);
          s1 = s\<lparr> cert := arg_cert a, nodes := Some ns, node_cnt := Some (length ns),
                  node_pool := Some (ns, 0),
                  authdata := JDict [(''userId'', JStr (arg_username a)),
                                     (''password'', JStr (arg_password a))],
                  connect_timeout := Some (arg_connect_timeout a),
                  request_timeout := Some (arg_request_timeout a),
                  protocol := Some (arg_protocol a), port := arg_port a,
                  is_cvaas := arg_is_cvaas a, tenant := arg_tenant a \<rparr>;
          s2 = (case arg_cvaas_token a of
                  None \<Rightarrow> s1
                | Some t \<Rightarrow> s1\<lparr>cvaas_token := Some t, api_token := Some t\<rparr>);
          s3 = (case arg_api_token a of
                  None \<Rightarrow> s2
                | Some t \<Rightarrow> s2\<lparr>api_token := Some t, cvaas_token := Some t\<rparr>)
      in case create_session e True s3 of
           (Raise x, s4) \<Rightarrow> (Raise x, s4)
         | (Return u, s4) \<Rightarrow>
             if session s4 = None then (Raise (CvpLoginError (error_msg s4)), s4)
             else (Return (), s4))"

subsection \<open>\<open>set_version\<close>\<close>

text \<open>\<open>version.split(".")\<close> and \<open>".".join(version_components)\<close>.\<close>

fun split_dot :: "string \<Rightarrow> string list" where
  "split_dot [] = [[]]"
| "split_dot (c # s) =
     (if c = CHR ''.'' then [] # split_dot s
      else (case split_dot s of [] \<Rightarrow> [[c]] | w # ws \<Rightarrow> (c # w) # ws))"

fun join_dot :: "string list \<Rightarrow> string" where
  "join_dot [] = []"
| "join_dot [w] = w"
| "join_dot (w # ws) = w @ ''.'' @ join_dot ws"

text \<open>
  \<open>pkg_resources.parse_version\<close> belongs to setuptools, not to the repository. It is
  modelled on versions that are decimal numbers separated by dots, the only ones the client
  compares with: the key that orders two such versions is the tuple of the numbers without
  its trailing zeros, and tuples are ordered lexicographically. Any other text is refused
  (\<open>InvalidVersion\<close>).
\<close>

definition parse_version :: "string \<Rightarrow> nat list option" where
  "parse_version v =
     (let parts = split_dot v
      in if \<forall>p \<in> set parts. p \<noteq> [] \<and> (\<forall>c \<in> set p. is_digit c)
         then Some (rev (dropWhile (\<lambda>n. n = 0) (rev (map nat_of_digits parts))))
         else None)"

text \<open>\<open>a >= b\<close> on two such keys.\<close>

fun key_ge :: "nat list \<Rightarrow> nat list \<Rightarrow> bool" where
  "key_ge a [] = True"
| "key_ge [] (y # b) = False"
| "key_ge (x # a) (y # b) = (y < x \<or> (x = y \<and> key_ge a b))"

text \<open>\<open>parse_version(full_version) >= parse_version(threshold)\<close>.\<close>

definition version_ge :: "string \<Rightarrow> string \<Rightarrow> bool outcome" where
  "version_ge full_version threshold =
     (case parse_version full_version of
        None \<Rightarrow> Raise (InvalidVersion full_version)
      | Some a \<Rightarrow>
          (case parse_version threshold of
             None \<Rightarrow> Raise (InvalidVersion threshold)
           | Some b \<Rightarrow> Return (key_ge a b)))"

definition set_version :: "string \<Rightarrow> client \<Rightarrow> unit outcome \<times> client" where
  "set_version ver s =
     (let s1 = s\<lparr>version := Some ver\<rparr> in
      if is_cvaas s1 then (Return (), s1\<lparr>apiversion := Some LATEST_API_VERSION\<rparr>)
      else
        (let version_components = split_dot ver;
             version_components =
               (if length version_components < 3 then version_components @ [''0'']
                else version_components);
             full_version = join_dot version_components
         in case version_ge full_version ''2022.1.0'' of
              Raise x \<Rightarrow> (Raise x, s1)
            | Return True \<Rightarrow> (Return (), s1\<lparr>apiversion := Some 8.0\<rparr>)
            | Return False \<Rightarrow>
         (case version_ge full_version ''2021.3.0'' of
              Raise x \<Rightarrow> (Raise x, s1)
            | Return True \<Rightarrow> (Return (), s1\<lparr>apiversion := Some 7.0\<rparr>)
            | Return False \<Rightarrow>
         (case version_ge full_version ''2021.2.0'' of
              Raise x \<Rightarrow> (Raise x, s1)
            | Return True \<Rightarrow> (Return (), s1\<lparr>apiversion := Some 6.0\<rparr>)
            | Return False \<Rightarrow>
         (case version_ge full_version ''2020.2.4'' of
              Raise x \<Rightarrow> (Raise x, s1)
            | Return True \<Rightarrow> (Return (), s1\<lparr>apiversion := Some 5.0\<rparr>)
            | Return False \<Rightarrow>
         (case version_ge full_version ''2020.1.1'' of
              Raise x \<Rightarrow> (Raise x, s1)
            | Return True \<Rightarrow> (Return (), s1\<lparr>apiversion := Some 4.0\<rparr>)
            | Return False \<Rightarrow>
         (case version_ge full_version ''2019.0.0'' of
              Raise x \<Rightarrow> (Raise x, s1)
            | Return True \<Rightarrow> (Return (), s1\<lparr>apiversion := Some 3.0\<rparr>)
            | Return False \<Rightarrow>
         (case version_ge full_version ''2018.2.0'' of
              Raise x \<Rightarrow> (Raise x, s1)
            | Return True \<Rightarrow> (Return (), s1\<lparr>apiversion := Some 2.0\<rparr>)
            | Return False \<Rightarrow> (Return (), s1\<lparr>apiversion := Some 1.0\<rparr>)))))))))"

section \<open>Requests without a session\<close>

text \<open>No path but the first check of \<open>_make_request\<close> raises a \<open>ValueError\<close>.\<close>

lemma py_in_not_ValueError: "py_in key obj \<noteq> Raise (ValueError m)"
  by (cases obj) auto

lemma py_getitem_not_ValueError: "py_getitem obj key \<noteq> Raise (ValueError m)"
  by (cases obj) (auto split: option.splits)

lemma py_elements_not_ValueError: "py_elements obj \<noteq> Raise (ValueError m)"
  by (cases obj) auto

lemma err_msg_of_not_ValueError: "err_msg_of e joutput \<noteq> Raise (ValueError m)"
  using py_in_not_ValueError[of _ joutput m] py_getitem_not_ValueError[of joutput _ m]
    py_elements_not_ValueError[of _ m]
  by (auto simp: err_msg_of_def split: outcome.splits bool.splits if_splits)

lemma is_good_response_not_ValueError: "is_good_response e response pfx \<noteq> Raise (ValueError m)"
  using err_msg_of_not_ValueError[of e _ m]
  by (auto simp: is_good_response_def Let_def split: outcome.splits)

lemma login_on_prem_not_ValueError: "fst (login_on_prem e s) \<noteq> Raise (ValueError m)"
  using is_good_response_not_ValueError[of e _ _ m] py_getitem_not_ValueError[of _ _ m]
  by (auto simp: login_on_prem_def Let_def transport_def
      split: option.splits prod.splits net_result.splits outcome.splits sum.splits)

lemma login_not_ValueError: "fst (login e s) \<noteq> Raise (ValueError m)"
  using login_on_prem_not_ValueError[of e _ m]
  by (auto simp: login_def Let_def split: option.splits)

lemma reset_session_not_ValueError: "fst (reset_session e s) \<noteq> Raise (ValueError m)"
proof -
  have "login e s' = (Raise (ValueError m), s'') \<Longrightarrow> False" for s' s''
    using login_not_ValueError[of e s' m] by simp
  then show ?thesis
    by (auto simp: reset_session_def Let_def split: prod.splits outcome.splits)
qed

lemma create_session_loop_not_ValueError:
  "fst (create_session_loop e k s) \<noteq> Raise (ValueError m)"
proof (induction k arbitrary: s)
  case 0
  then show ?case by simp
next
  case (Suc k)
  have r: "reset_session e s' = (Raise (ValueError m), s'') \<Longrightarrow> False" for s' s''
    using reset_session_not_ValueError[of e s' m] by simp
  show ?case
    using Suc.IH r
    by (auto simp: Let_def split: option.splits prod.splits outcome.splits)
qed

lemma create_session_not_ValueError: "fst (create_session e all_nodes s) \<noteq> Raise (ValueError m)"
  using create_session_loop_not_ValueError[of e _ _ m]
  by (auto simp: create_session_def Let_def split: option.splits)

lemma request_call_not_ValueError:
  "request_call req_type full_url timeout data files s \<noteq> Raise (ValueError m)"
  by (auto simp: request_call_def Let_def split: option.splits)

lemma send_request_loop_not_ValueError:
  "fst (send_request_loop e req_type full_url timeout data files req_try s) \<noteq> Raise (ValueError m)"
proof (induction "NUM_RETRY_REQUESTS - req_try" arbitrary: req_try s)
  case 0
  then show ?case by (subst send_request_loop.simps) simp
next
  case (Suc k)
  have IH: "fst (send_request_loop e req_type full_url timeout data files (req_try + 1) s')
              \<noteq> Raise (ValueError m)" for s'
    using Suc.hyps(2) by (intro Suc.hyps(1)) simp
  have IH': "send_request_loop e req_type full_url timeout data files (Suc req_try) s'
              = (Raise (ValueError m), s'') \<Longrightarrow> False" for s' s''
    using IH[of s'] by simp
  have r: "reset_session e s' = (Raise (ValueError m), s'') \<Longrightarrow> False" for s' s''
    using reset_session_not_ValueError[of e s' m] by simp
  have g: "is_good_response e response pfx = Raise (ValueError m) \<Longrightarrow> False" for response pfx
    using is_good_response_not_ValueError[of e response pfx m] by simp
  have c: "request_call req_type full_url timeout data files s = Raise (ValueError m) \<Longrightarrow> False"
    using request_call_not_ValueError[of req_type full_url timeout data files s m] by simp
  show ?case
    apply (subst send_request_loop.simps)
    using IH IH' r g c
    by (auto simp: Let_def split: outcome.splits prod.splits net_result.splits exn.splits)
qed

lemma send_request_not_ValueError:
  "fst (send_request e req_type full_url timeout data files s) \<noteq> Raise (ValueError m)"
  unfolding send_request_def by (rule send_request_loop_not_ValueError)

lemma full_url_of_not_ValueError: "full_url_of url s \<noteq> Raise (ValueError m)"
  by (auto simp: full_url_of_def split: option.splits)

lemma make_request_loop_not_ValueError:
  "fst (make_request_loop e req_type url timeout data files cnt node_num s) \<noteq> Raise (ValueError m)"
proof (induction "cnt - node_num" arbitrary: node_num s)
  case 0
  then show ?case by (subst make_request_loop.simps) simp
next
  case (Suc k)
  have IH: "fst (make_request_loop e req_type url timeout data files cnt (Suc node_num) s')
              \<noteq> Raise (ValueError m)" for s'
    using Suc.hyps(2) by (intro Suc.hyps(1)) simp
  have a: "send_request e req_type full_url timeout data files s' = (Raise (ValueError m), s'')
             \<Longrightarrow> False" for full_url s' s''
    using send_request_not_ValueError[of e req_type full_url timeout data files s' m] by simp
  have b: "create_session e False s' = (Raise (ValueError m), s'') \<Longrightarrow> False" for s' s''
    using create_session_not_ValueError[of e False s' m] by simp
  have c: "full_url_of url s = Raise (ValueError m) \<Longrightarrow> False"
    using full_url_of_not_ValueError[of url s m] by simp
  show ?case
    apply (subst make_request_loop.simps)
    using IH a b c
    by (auto simp: Let_def split: outcome.splits prod.splits)
qed

lemma decode_response_not_ValueError: "decode_response response full_url \<noteq> Raise (ValueError m)"
  using py_in_not_ValueError[of _ _ m]
  by (auto simp: decode_response_def split: sum.splits outcome.splits)

text \<open>
  Claim C10. \<open>_make_request\<close> raises \<open>ValueError('No valid session to CVP node')\<close> exactly when
  \<open>self.session\<close> is \<open>None\<close> on entry; it then raises before it reads the URL prefix or calls
  the network, and leaves every attribute of the client (and the record of calls made) as
  it was. \<open>get\<close>, \<open>post\<close> and \<open>delete\<close> do the same.
\<close>

theorem make_request_without_session:
  "((fst (make_request e req_type url timeout data files s)
       = Raise (ValueError ''No valid session to CVP node'')) = (session s = None))
   \<and> (session s = None \<longrightarrow>
        make_request e req_type url timeout data files s
          = (Raise (ValueError ''No valid session to CVP node''), s)
        \<and> get e url timeout s = (Raise (ValueError ''No valid session to CVP node''), s)
        \<and> post e url data files timeout s
            = (Raise (ValueError ''No valid session to CVP node''), s)
        \<and> delete e url data timeout s
            = (Raise (ValueError ''No valid session to CVP node''), s))"
proof -
  let ?err = "Raise (ValueError ''No valid session to CVP node'')"
  have absent: "make_request e' r u t d f s = (?err, s)" if "session s = None" for e' r u t d f
    using that by (simp add: make_request_def)
  have present: "fst (make_request e req_type url timeout data files s) \<noteq> ?err"
    if "session s \<noteq> None"
  proof -
    have l: "make_request_loop e req_type url timeout data files cnt 0 s' = (?err, s'')
               \<Longrightarrow> False" for cnt s' s''
      using make_request_loop_not_ValueError
              [of e req_type url timeout data files cnt 0 s' "''No valid session to CVP node''"]
      by simp
    have d: "decode_response response full_url = ?err \<Longrightarrow> False" for response full_url
      using decode_response_not_ValueError[of response full_url] by simp
    show ?thesis
      using that l d
      by (auto simp: make_request_def Let_def split: option.splits prod.splits outcome.splits)
  qed
  show ?thesis
  proof (cases "session s = None")
    case True
    then show ?thesis by (simp add: absent get_def post_def delete_def)
  next
    case False
    from present[OF False] False show ?thesis by blast
  qed
qed

text \<open>A network on which every call is refused, and nothing else known.\<close>

definition env_refused :: env where
  "env_refused = \<lparr> net = (\<lambda>n r. Fails ConnectionError ''Connection refused''),
                    py_repr = (\<lambda>v. []), CURRENT_NODE_IP = None \<rparr>"

theorem make_request_without_session_witness:
  "session init = None
   \<and> get env_refused ''/cvpInfo/getCvpInfo.do'' 30 init
       = (Raise (ValueError ''No valid session to CVP node''), init)"
proof -
  have s: "session init = None" by (simp add: init_def)
  from make_request_without_session
         [of env_refused "''GET''" "''/cvpInfo/getCvpInfo.do''" 30 JNull None init] s
  have "get env_refused ''/cvpInfo/getCvpInfo.do'' 30 init
          = (Raise (ValueError ''No valid session to CVP node''), init)"
    by blast
  with s show ?thesis by simp
qed

end
